theory Spec2Isabelle
  imports Complex_Main "HOL-Library.AList"
begin

section \<open>The volatility carry strategy\<close>

text \<open>
  A shallow embedding of \<^verbatim>\<open>src/strategies/volatility_carry.py\<close>, the class
  \<^verbatim>\<open>VolatilityCarryStrategy\<close>.

  Conventions of the model:
  \<^item> Python floats are real numbers: rounding, infinities and NaN are not modelled. The
    one arithmetic fault of the source that is modelled is division of a float by zero,
    which raises \<^verbatim>\<open>ZeroDivisionError\<close>.
  \<^item> An exception is a value of type \<open>exn\<close>; every constructor stands for a subclass of
    Python's \<^verbatim>\<open>Exception\<close>, which is what the \<^verbatim>\<open>except Exception\<close> clauses catch.
  \<^item> A dictionary is an association list; \<^verbatim>\<open>d.get(k, default)\<close> is \<open>dict_get\<close>,
    \<^verbatim>\<open>d[k]\<close> is \<open>dict_item\<close> and \<^verbatim>\<open>d[k] = v\<close> is \<open>AList.update\<close>.
  \<^item> The base class and the price-history manager are not part of the file. What their
    methods answer during one call is a parameter, the record \<open>collaborators\<close>: every
    method is invoked at most once per argument during a call of \<^verbatim>\<open>generate_signal\<close>
    or \<^verbatim>\<open>get_strategy_status\<close>, so one answer per method and argument covers any
    collaborator, stateful or not. They are taken not to assign the four tracking
    attributes that this class declares.
  \<^item> Each invocation of a collaborator is appended to the ghost field \<open>calls\<close> of the
    state, with its outcome, so that theorems can speak about which calls were made.
  \<^item> Logging is not modelled.
\<close>

subsection \<open>Data\<close>

datatype exn = ZeroDivisionError | KeyError string | CollaboratorError string

record market_data =
  current_price :: real
  price_15m :: "real list"

text \<open>
  The \<^verbatim>\<open>Signal\<close> of the base module; \<open>action\<close> is 0 (HOLD), 1 (BUY) or 2 (SELL). The
  reason is the literal text of the f-string and the slope it interpolates (the
  \<^verbatim>\<open>:.3f\<close> rendering is not modelled).
\<close>

record signal =
  action :: int
  confidence :: real
  entry_price :: real
  stop_price :: real
  target_price :: real
  reason :: "string \<times> real"

record config =
  contango_threshold :: real
  backwardation_threshold :: real
  target_atr_multiplier :: real
  min_carry_confidence :: real

record risk_management_config =
  stop_loss_atr_multiplier :: real
  min_confidence :: real

record system_config =
  risk_management :: risk_management_config

type_synonym vol_reading = "(string \<times> real) list"

type_synonym history_status = "(string \<times> (string \<times> int) list) list"

text \<open>
  The dictionary answered by \<^verbatim>\<open>calculate_volatility_breakout\<close>; \<open>None\<close> in a field
  is an absent key.
\<close>

record breakout_info =
  is_breakout :: "bool option"
  breakout_strength :: "real option"

record collaborators =
  update_price_history :: "market_data \<Rightarrow> exn + unit"
  get_status :: "exn + history_status"
  calculate_realized_volatility :: "string \<Rightarrow> nat \<times> nat \<Rightarrow> exn + vol_reading option"
  calculate_volatility_regime :: "string \<Rightarrow> exn + string"
  calculate_volatility_breakout :: "string \<Rightarrow> exn + breakout_info option"
  calculate_volatility_metrics :: "exn + (string \<times> real) list"
  should_trade :: "market_data \<Rightarrow> exn + bool"
  calculate_atr_simple :: "real list \<Rightarrow> exn + real"

datatype call =
    UpdatePriceHistory
  | GetStatus
  | CalculateRealizedVolatility string
  | CalculateVolatilityRegime string
  | CalculateVolatilityBreakout string
  | CalculateVolatilityMetrics
  | ShouldTrade
  | CalculateAtrSimple

datatype outcome = Returned | Raised

text \<open>The attributes of an instance, and the ghost trace \<open>calls\<close>.\<close>

record strategy =
  name :: string
  config :: config
  system_config :: system_config
  vol_term_structure :: "(string \<times> real) list"
  carry_history :: "signal list"
  last_carry_signal :: "signal option"
  carry_threshold_breached :: bool
  calls :: "(call \<times> outcome) list"

definition init :: "config \<Rightarrow> system_config \<Rightarrow> strategy" where
  "init cfg sys_cfg =
     \<lparr>name = ''VolatilityCarry'', config = cfg, system_config = sys_cfg,
      vol_term_structure = [], carry_history = [], last_carry_signal = None,
      carry_threshold_breached = False, calls = []\<rparr>"

subsection \<open>Methods as state transformers that may raise\<close>

type_synonym 'a prog = "strategy \<Rightarrow> (exn + 'a) \<times> strategy"

definition return_p :: "'a \<Rightarrow> 'a prog" where
  "return_p x = (\<lambda>s. (Inr x, s))"

definition lift_p :: "exn + 'a \<Rightarrow> 'a prog" where
  "lift_p r = (\<lambda>s. (r, s))"

definition get_self :: "strategy prog" where
  "get_self = (\<lambda>s. (Inr s, s))"

definition bind_p :: "'a prog \<Rightarrow> ('a \<Rightarrow> 'b prog) \<Rightarrow> 'b prog" where
  "bind_p m f = (\<lambda>s. case m s of (Inl e, s') \<Rightarrow> (Inl e, s') | (Inr x, s') \<Rightarrow> f x s')"

definition try_except :: "'a prog \<Rightarrow> (exn \<Rightarrow> 'a prog) \<Rightarrow> 'a prog" where
  "try_except m h = (\<lambda>s. case m s of (Inl e, s') \<Rightarrow> h e s' | (Inr x, s') \<Rightarrow> (Inr x, s'))"

definition outcome_of :: "exn + 'a \<Rightarrow> outcome" where
  "outcome_of r = (case r of Inl e \<Rightarrow> Raised | Inr x \<Rightarrow> Returned)"

definition invoke :: "call \<Rightarrow> exn + 'a \<Rightarrow> 'a prog" where
  "invoke c r = (\<lambda>s. (r, s\<lparr>calls := calls s @ [(c, outcome_of r)]\<rparr>))"

subsection \<open>Python primitives\<close>

definition py_truediv :: "real \<Rightarrow> real \<Rightarrow> exn + real" where
  "py_truediv a b = (if b = 0 then Inl ZeroDivisionError else Inr (a / b))"

definition dict_get :: "(string \<times> 'a) list \<Rightarrow> string \<Rightarrow> 'a \<Rightarrow> 'a" where
  "dict_get d k dflt = (case map_of d k of None \<Rightarrow> dflt | Some v \<Rightarrow> v)"

definition dict_item :: "(string \<times> 'a) list \<Rightarrow> string \<Rightarrow> exn + 'a" where
  "dict_item d k = (case map_of d k of None \<Rightarrow> Inl (KeyError k) | Some v \<Rightarrow> Inr v)"

subsection \<open>The data-sufficiency gate\<close>

definition required_data :: "(string \<times> int) list" where
  "required_data = [(''5m'', 100), (''15m'', 100), (''1h'', 100)]"

text \<open>The loop over \<^verbatim>\<open>required_data.items()\<close>, with its early return.\<close>

fun check_required :: "history_status \<Rightarrow> (string \<times> int) list \<Rightarrow> bool" where
  "check_required status [] = True"
| "check_required status ((timeframe, required) # rest) =
     (if dict_get (dict_get status timeframe []) ''data_points'' 0 < required then False
      else check_required status rest)"

definition has_sufficient_data :: "collaborators \<Rightarrow> bool prog" where
  "has_sufficient_data C =
     bind_p (invoke GetStatus (get_status C)) (\<lambda>status.
     return_p (check_required status required_data))"

subsection \<open>The term-structure analyzer\<close>

definition short_medium_slope :: "real \<Rightarrow> real \<Rightarrow> exn + real" where
  "short_medium_slope short_vol medium_vol =
     (if short_vol > 0 then py_truediv (medium_vol - short_vol) short_vol else Inr 0)"

definition medium_long_slope :: "real \<Rightarrow> real \<Rightarrow> exn + real" where
  "medium_long_slope medium_vol long_vol =
     (if medium_vol > 0 then py_truediv (long_vol - medium_vol) medium_vol else Inr 0)"

definition overall_slope :: "real \<Rightarrow> real \<Rightarrow> exn + real" where
  "overall_slope short_vol long_vol =
     (if short_vol > 0 then py_truediv (long_vol - short_vol) short_vol else Inr 0)"

text \<open>
  The loop over the timeframes: a reading is kept when it is truthy, that is neither
  \<^verbatim>\<open>None\<close> nor an empty dictionary.
\<close>

fun collect_vol_structure ::
  "collaborators \<Rightarrow> string list \<Rightarrow> (string \<times> vol_reading) list \<Rightarrow>
   (string \<times> vol_reading) list prog" where
  "collect_vol_structure C [] vol_structure = return_p vol_structure"
| "collect_vol_structure C (timeframe # rest) vol_structure =
     bind_p (invoke (CalculateRealizedVolatility timeframe)
               (calculate_realized_volatility C timeframe (20, 60))) (\<lambda>realized_vols.
     collect_vol_structure C rest
       (case realized_vols of
          None \<Rightarrow> vol_structure
        | Some r \<Rightarrow> if r = [] then vol_structure else AList.update timeframe r vol_structure))"

text \<open>
  The expression that both branches use for the ATR proxy: the collaborator on
  \<^verbatim>\<open>price_15m[-20:]\<close> when there are at least 20 points, else 1% of the price.
\<close>

definition atr_proxy :: "collaborators \<Rightarrow> market_data \<Rightarrow> real prog" where
  "atr_proxy C market_data =
     (if length (price_15m market_data) \<ge> 20
      then invoke CalculateAtrSimple
             (calculate_atr_simple C
                (drop (length (price_15m market_data) - 20) (price_15m market_data)))
      else return_p (current_price market_data * 0.01))"

definition analyze_term_structure_body :: "collaborators \<Rightarrow> market_data \<Rightarrow> signal option prog" where
  "analyze_term_structure_body C market_data =
     bind_p (collect_vol_structure C [''5m'', ''15m'', ''1h''] []) (\<lambda>vol_structure.
     if length vol_structure < 3 then return_p None
     else
     bind_p (lift_p (dict_item vol_structure ''5m'')) (\<lambda>vols_5m.
     bind_p (lift_p (dict_item vol_structure ''15m'')) (\<lambda>vols_15m.
     bind_p (lift_p (dict_item vol_structure ''1h'')) (\<lambda>vols_1h.
     bind_p (lift_p (short_medium_slope (dict_get vols_5m ''20_period'' 0)
                       (dict_get vols_15m ''20_period'' 0))) (\<lambda>sm_slope.
     bind_p (lift_p (medium_long_slope (dict_get vols_15m ''20_period'' 0)
                       (dict_get vols_1h ''20_period'' 0))) (\<lambda>ml_slope.
     bind_p (lift_p (overall_slope (dict_get vols_5m ''20_period'' 0)
                       (dict_get vols_1h ''20_period'' 0))) (\<lambda>slope.
     bind_p get_self (\<lambda>self.
     if slope > contango_threshold (config self) then
       bind_p (lift_p (py_truediv slope (contango_threshold (config self)))) (\<lambda>ratio.
       bind_p (atr_proxy C market_data) (\<lambda>atr.
       return_p (Some
         \<lparr>action = 2,
          confidence = min (0.5 + min ratio 2.0 * 0.2) 0.9,
          entry_price = current_price market_data,
          stop_price = current_price market_data
             + atr * stop_loss_atr_multiplier (risk_management (system_config self)),
          target_price = current_price market_data
             - atr * target_atr_multiplier (config self),
          reason = (''Vol carry: Strong contango (slope='', slope)\<rparr>)))
     else if slope < - backwardation_threshold (config self) then
       bind_p (lift_p (py_truediv \<bar>slope\<bar> (backwardation_threshold (config self)))) (\<lambda>ratio.
       bind_p (atr_proxy C market_data) (\<lambda>atr.
       return_p (Some
         \<lparr>action = 1,
          confidence = min (0.5 + min ratio 2.0 * 0.2) 0.9,
          entry_price = current_price market_data,
          stop_price = current_price market_data
             - atr * stop_loss_atr_multiplier (risk_management (system_config self)),
          target_price = current_price market_data
             + atr * target_atr_multiplier (config self),
          reason = (''Vol carry: Strong backwardation (slope='', slope)\<rparr>)))
     else return_p None))))))))"

definition analyze_term_structure :: "collaborators \<Rightarrow> market_data \<Rightarrow> signal option prog" where
  "analyze_term_structure C market_data =
     try_except (analyze_term_structure_body C market_data) (\<lambda>e. return_p None)"

subsection \<open>The carry-opportunity validator\<close>

text \<open>
  The two nested tests on the breakout dictionary: it is truthy, \<^verbatim>\<open>is_breakout\<close>
  (default \<^verbatim>\<open>False\<close>) holds, and \<^verbatim>\<open>breakout_strength\<close> (default 0) is above 2.5.
  An empty dictionary has no key, so its truth value and its default agree.
\<close>

definition breakout_rejects :: "breakout_info option \<Rightarrow> bool" where
  "breakout_rejects info =
     (case info of
        None \<Rightarrow> False
      | Some b \<Rightarrow>
          (if (case is_breakout b of None \<Rightarrow> False | Some flag \<Rightarrow> flag)
           then (case breakout_strength b of None \<Rightarrow> 0 | Some x \<Rightarrow> x) > 2.5
           else False))"

definition validate_carry_opportunity_body ::
  "collaborators \<Rightarrow> signal \<Rightarrow> market_data \<Rightarrow> bool prog" where
  "validate_carry_opportunity_body C sig market_data =
     bind_p (invoke (CalculateVolatilityRegime ''15m'')
               (calculate_volatility_regime C ''15m'')) (\<lambda>vol_regime.
     if vol_regime = ''low'' \<and> action sig = 2 then return_p False
     else if vol_regime = ''high'' \<and> action sig = 1 then return_p False
     else
     bind_p (invoke (CalculateVolatilityBreakout ''15m'')
               (calculate_volatility_breakout C ''15m'')) (\<lambda>info.
     if breakout_rejects info then return_p False
     else
     bind_p get_self (\<lambda>self.
     if confidence sig < min_carry_confidence (config self) then return_p False
     else return_p True)))"

definition validate_carry_opportunity ::
  "collaborators \<Rightarrow> signal \<Rightarrow> market_data \<Rightarrow> bool prog" where
  "validate_carry_opportunity C sig market_data =
     try_except (validate_carry_opportunity_body C sig market_data) (\<lambda>e. return_p False)"

subsection \<open>The orchestrator\<close>

text \<open>
  \<^verbatim>\<open>if not primary_signal\<close> tests for \<^verbatim>\<open>None\<close>: a \<^verbatim>\<open>Signal\<close> object is truthy. An
  exception of \<^verbatim>\<open>_has_sufficient_data\<close>, which has no handler of its own, reaches the
  handler of the entry point.
\<close>

definition generate_signal_body :: "collaborators \<Rightarrow> market_data \<Rightarrow> signal option prog" where
  "generate_signal_body C market_data =
     bind_p (invoke UpdatePriceHistory (update_price_history C market_data)) (\<lambda>u.
     bind_p (has_sufficient_data C) (\<lambda>sufficient.
     if \<not> sufficient then return_p None
     else
     bind_p (analyze_term_structure C market_data) (\<lambda>primary_signal.
     case primary_signal of
       None \<Rightarrow> return_p None
     | Some sig \<Rightarrow>
         bind_p (validate_carry_opportunity C sig market_data) (\<lambda>valid.
         if \<not> valid then return_p None
         else
         bind_p (invoke ShouldTrade (should_trade C market_data)) (\<lambda>allowed.
         if \<not> allowed then return_p None
         else
         bind_p get_self (\<lambda>self.
         if confidence sig < min_confidence (risk_management (system_config self))
         then return_p None
         else return_p (Some sig)))))))"

definition generate_signal :: "collaborators \<Rightarrow> market_data \<Rightarrow> signal option prog" where
  "generate_signal C market_data =
     try_except (generate_signal_body C market_data) (\<lambda>e. return_p None)"

subsection \<open>The status reporter\<close>



subsection \<open>The life of an instance\<close>




subsection \<open>Programs that only extend the trace\<close>

text \<open>
  \<open>traced A m\<close>: the program \<open>m\<close> leaves every attribute as it found it and extends the
  trace, and when one of the calls it made raised, its result satisfies \<open>A\<close>.
\<close>

definition traced :: "(exn + 'a \<Rightarrow> bool) \<Rightarrow> 'a prog \<Rightarrow> bool" where
  "traced A m =
     (\<forall>s. \<exists>r tr. m s = (r, s\<lparr>calls := calls s @ tr\<rparr>) \<and> (Raised \<in> snd ` set tr \<longrightarrow> A r))"

subsection \<open>Concrete inputs\<close>

definition demo_config :: config where
  "demo_config =
     \<lparr>contango_threshold = 5 / 10, backwardation_threshold = 3 / 10,
      target_atr_multiplier = 2, min_carry_confidence = 6 / 10\<rparr>"

definition demo_system_config :: system_config where
  "demo_system_config =
     \<lparr>risk_management = \<lparr>stop_loss_atr_multiplier = 3 / 2, min_confidence = 6 / 10\<rparr>\<rparr>"

definition demo_strategy :: strategy where
  "demo_strategy = init demo_config demo_system_config"

text \<open>A snapshot with fewer than 20 fifteen-minute points, and one with 21.\<close>

definition demo_market :: market_data where
  "demo_market = \<lparr>current_price = 100, price_15m = [99, 100]\<rparr>"


text \<open>
  Collaborators that never raise: 100 or more points in every timeframe, readings in
  contango (0.01, 0.015, 0.02), a medium regime, no breakout, the risk gate open, and an
  ATR of 4 on twenty points of 100 (1 on anything else).
\<close>

definition full_status :: history_status where
  "full_status =
     [(''5m'', [(''data_points'', 100)]), (''15m'', [(''data_points'', 150)]),
      (''1h'', [(''data_points'', 100)])]"

fun contango_vols :: "string \<Rightarrow> nat \<times> nat \<Rightarrow> exn + vol_reading option" where
  "contango_vols timeframe windows =
     (if timeframe = ''5m'' then Inr (Some [(''20_period'', 1 / 100), (''60_period'', 1 / 100)])
      else if timeframe = ''15m'' then Inr (Some [(''20_period'', 15 / 1000)])
      else Inr (Some [(''20_period'', 2 / 100)]))"


fun flat_atr :: "real list \<Rightarrow> exn + real" where
  "flat_atr prices = (if prices = replicate 20 100 then Inr 4 else Inr 1)"

fun always :: "'b \<Rightarrow> 'a \<Rightarrow> 'b" where
  "always r x = r"

definition calm :: collaborators where
  "calm =
     \<lparr>update_price_history = always (Inr ()),
      get_status = Inr full_status,
      calculate_realized_volatility = contango_vols,
      calculate_volatility_regime = always (Inr ''medium''),
      calculate_volatility_breakout = always (Inr None),
      calculate_volatility_metrics = Inr [],
      should_trade = always (Inr True),
      calculate_atr_simple = flat_atr\<rparr>"


definition negative_threshold_strategy :: strategy where
  "negative_threshold_strategy =
     init (demo_config\<lparr>contango_threshold := - (1 / 2)\<rparr>) demo_system_config"

text \<open>Variations of the collaborators, one answer changed each.\<close>

definition short_history :: collaborators where
  "short_history =
     calm\<lparr>get_status :=
       Inr [(''5m'', [(''data_points'', 100)]), (''15m'', [(''data_points'', 99)])]\<rparr>"


definition low_regime :: collaborators where
  "low_regime = calm\<lparr>calculate_volatility_regime := always (Inr ''low'')\<rparr>"

definition strong_breakout :: collaborators where
  "strong_breakout =
     calm\<lparr>calculate_volatility_breakout :=
       always (Inr (Some \<lparr>is_breakout = Some True, breakout_strength = Some 3\<rparr>))\<rparr>"

definition mild_breakout :: collaborators where
  "mild_breakout =
     calm\<lparr>calculate_volatility_breakout :=
       always (Inr (Some \<lparr>is_breakout = Some True, breakout_strength = Some 2\<rparr>))\<rparr>"

definition closed_risk_gate :: collaborators where
  "closed_risk_gate = calm\<lparr>should_trade := always (Inl (CollaboratorError ''risk gate''))\<rparr>"


text \<open>The candidate that the analyzer builds from \<open>calm\<close> on \<open>demo_market\<close>.\<close>

definition demo_sell :: signal where
  "demo_sell =
     \<lparr>action = 2, confidence = 9 / 10, entry_price = 100, stop_price = 203 / 2,
      target_price = 98, reason = (''Vol carry: Strong contango (slope='', 1)\<rparr>"

section \<open>Properties\<close>

subsection \<open>How the trace grows\<close>

lemma traced_return: "traced A (return_p x)"
  unfolding traced_def return_p_def by (simp, intro allI exI [of _ "[]"], simp)

lemma traced_lift: "traced A (lift_p r)"
  unfolding traced_def lift_p_def by (simp, intro allI exI [of _ "[]"], simp)

lemma traced_get_self: "traced A get_self"
  unfolding traced_def get_self_def by (simp, intro allI exI [of _ "[]"], simp)

lemma traced_invoke: "traced isl (invoke c r)"
  by (auto simp: traced_def invoke_def outcome_of_def split: sum.splits)

lemma traced_weaken: "traced A m \<Longrightarrow> (\<And>r. A r \<Longrightarrow> B r) \<Longrightarrow> traced B m"
  unfolding traced_def by blast

lemma traced_bind:
  assumes m: "traced isl m" and f: "\<And>x. traced A (f x)" and A: "\<And>e. A (Inl e)"
  shows "traced A (bind_p m f)"
  unfolding traced_def
proof
  fix s
  from m obtain r tr where 1: "m s = (r, s\<lparr>calls := calls s @ tr\<rparr>)" and 2: "Raised \<in> snd ` set tr \<longrightarrow> isl r"
    unfolding traced_def by blast
  show "\<exists>r tr. bind_p m f s = (r, s\<lparr>calls := calls s @ tr\<rparr>) \<and> (Raised \<in> snd ` set tr \<longrightarrow> A r)"
  proof (cases r)
    case (Inl e)
    then show ?thesis using 1 A by (auto simp: bind_p_def)
  next
    case (Inr x)
    from f [of x] have "\<exists>r' tr'. f x (s\<lparr>calls := calls s @ tr\<rparr>) =
        (r', s\<lparr>calls := calls s @ tr\<rparr>\<lparr>calls := calls (s\<lparr>calls := calls s @ tr\<rparr>) @ tr'\<rparr>) \<and>
        (Raised \<in> snd ` set tr' \<longrightarrow> A r')"
      unfolding traced_def by blast
    then obtain r' tr' where 3: "f x (s\<lparr>calls := calls s @ tr\<rparr>) = (r', s\<lparr>calls := calls s @ tr @ tr'\<rparr>)"
      and 4: "Raised \<in> snd ` set tr' \<longrightarrow> A r'"
      by auto
    have "Raised \<notin> snd ` set tr" using 2 Inr by auto
    then show ?thesis using 1 Inr 3 4
      by (intro exI [of _ r'] exI [of _ "tr @ tr'"]) (auto simp: bind_p_def)
  qed
qed

lemma traced_bind_caught:
  assumes m: "traced (\<lambda>r. r = Inr d) m" and f: "\<And>x. traced A (f x)"
    and d: "\<And>s. A (fst (f d s))" and A: "\<And>e. A (Inl e)"
  shows "traced A (bind_p m f)"
  unfolding traced_def
proof
  fix s
  from m obtain r tr where 1: "m s = (r, s\<lparr>calls := calls s @ tr\<rparr>)" and 2: "Raised \<in> snd ` set tr \<longrightarrow> r = Inr d"
    unfolding traced_def by blast
  show "\<exists>r tr. bind_p m f s = (r, s\<lparr>calls := calls s @ tr\<rparr>) \<and> (Raised \<in> snd ` set tr \<longrightarrow> A r)"
  proof (cases r)
    case (Inl e)
    then show ?thesis using 1 A by (auto simp: bind_p_def)
  next
    case (Inr x)
    from f [of x] have "\<exists>r' tr'. f x (s\<lparr>calls := calls s @ tr\<rparr>) =
        (r', s\<lparr>calls := calls s @ tr\<rparr>\<lparr>calls := calls (s\<lparr>calls := calls s @ tr\<rparr>) @ tr'\<rparr>) \<and>
        (Raised \<in> snd ` set tr' \<longrightarrow> A r')"
      unfolding traced_def by blast
    then obtain r' tr' where 3: "f x (s\<lparr>calls := calls s @ tr\<rparr>) = (r', s\<lparr>calls := calls s @ tr @ tr'\<rparr>)"
      and 4: "Raised \<in> snd ` set tr' \<longrightarrow> A r'"
      by auto
    have 5: "Raised \<in> snd ` set tr \<Longrightarrow> A r'"
    proof -
      assume "Raised \<in> snd ` set tr"
      then have "x = d" using 2 Inr by simp
      then show "A r'" using d [of "s\<lparr>calls := calls s @ tr\<rparr>"] 3 by simp
    qed
    show ?thesis using 1 Inr 3 4 5
      by (intro exI [of _ r'] exI [of _ "tr @ tr'"]) (auto simp: bind_p_def)
  qed
qed

lemma traced_try:
  assumes m: "traced (\<lambda>r. isl r \<or> r = Inr d) m"
  shows "traced (\<lambda>r. r = Inr d) (try_except m (\<lambda>e. return_p d))"
  unfolding traced_def
proof
  fix s
  from m obtain r tr where 1: "m s = (r, s\<lparr>calls := calls s @ tr\<rparr>)"
    and 2: "Raised \<in> snd ` set tr \<longrightarrow> isl r \<or> r = Inr d"
    unfolding traced_def by blast
  show "\<exists>r tr. try_except m (\<lambda>e. return_p d) s = (r, s\<lparr>calls := calls s @ tr\<rparr>) \<and> (Raised \<in> snd ` set tr \<longrightarrow> r = Inr d)"
    using 1 2 by (cases r) (auto simp: try_except_def return_p_def)
qed

lemma try_except_returns: "\<exists>x. fst (try_except m (\<lambda>e. return_p d) s) = Inr x"
  by (auto simp: try_except_def return_p_def split: prod.splits sum.splits)

lemma traced_if: "(c \<Longrightarrow> traced A m) \<Longrightarrow> (\<not> c \<Longrightarrow> traced A n) \<Longrightarrow> traced A (if c then m else n)"
  by simp

lemma traced_has_sufficient_data: "traced isl (has_sufficient_data C)"
  unfolding has_sufficient_data_def
  by (intro traced_bind traced_invoke traced_return) simp

lemma traced_collect: "traced isl (collect_vol_structure C tfs vs)"
  by (induction tfs arbitrary: vs) (auto intro!: traced_bind traced_invoke traced_return)

lemma traced_atr_proxy: "traced isl (atr_proxy C md)"
  unfolding atr_proxy_def by (auto intro!: traced_invoke traced_return)

lemma traced_analyze_body: "traced isl (analyze_term_structure_body C md)"
  unfolding analyze_term_structure_body_def
  by (intro traced_bind traced_collect traced_if traced_return traced_lift traced_get_self traced_atr_proxy) simp_all

lemma traced_analyze: "traced (\<lambda>r. r = Inr None) (analyze_term_structure C md)"
  unfolding analyze_term_structure_def
  by (rule traced_try) (rule traced_weaken [OF traced_analyze_body], simp)

lemma traced_validate_body: "traced isl (validate_carry_opportunity_body C sig md)"
  unfolding validate_carry_opportunity_body_def
  by (intro traced_bind traced_if traced_return traced_invoke traced_get_self) simp_all

lemma traced_validate: "traced (\<lambda>r. r = Inr False) (validate_carry_opportunity C sig md)"
  unfolding validate_carry_opportunity_def
  by (rule traced_try) (rule traced_weaken [OF traced_validate_body], simp)

lemma traced_case_option:
  "traced A n \<Longrightarrow> (\<And>y. traced A (f y)) \<Longrightarrow> traced A (case x of None \<Rightarrow> n | Some y \<Rightarrow> f y)"
  by (cases x) simp_all

lemma traced_after_validate:
  "traced (\<lambda>r. isl r \<or> r = Inr None)
     (bind_p (validate_carry_opportunity C sig md) (\<lambda>valid.
        if \<not> valid then return_p None
        else bind_p (invoke ShouldTrade (should_trade C md)) (\<lambda>allowed.
          if \<not> allowed then return_p None
          else bind_p get_self (\<lambda>self.
            if confidence sig < min_confidence (risk_management (system_config self))
            then return_p None else return_p (Some sig)))))"
proof (rule traced_bind_caught [OF traced_validate])
  fix valid
  show "traced (\<lambda>r. isl r \<or> r = Inr None)
     (if \<not> valid then return_p None
        else bind_p (invoke ShouldTrade (should_trade C md)) (\<lambda>allowed.
          if \<not> allowed then return_p None
          else bind_p get_self (\<lambda>self.
            if confidence sig < min_confidence (risk_management (system_config self))
            then return_p None else return_p (Some sig))))"
    by (intro traced_if traced_return traced_bind traced_invoke traced_get_self) simp_all
qed (simp_all add: return_p_def)

lemma traced_generate_body:
  "traced (\<lambda>r. isl r \<or> r = Inr None) (generate_signal_body C md)"
  unfolding generate_signal_body_def
proof (intro traced_bind [OF traced_invoke] traced_bind [OF traced_has_sufficient_data]
    traced_if traced_return)
  show "traced (\<lambda>r. isl r \<or> r = Inr None)
     (bind_p (analyze_term_structure C md) (\<lambda>primary_signal.
        case primary_signal of None \<Rightarrow> return_p None
        | Some sig \<Rightarrow> bind_p (validate_carry_opportunity C sig md) (\<lambda>valid.
        if \<not> valid then return_p None
        else bind_p (invoke ShouldTrade (should_trade C md)) (\<lambda>allowed.
          if \<not> allowed then return_p None
          else bind_p get_self (\<lambda>self.
            if confidence sig < min_confidence (risk_management (system_config self))
            then return_p None else return_p (Some sig))))))"
  proof (rule traced_bind_caught [OF traced_analyze])
    fix x :: "signal option"
    show "traced (\<lambda>r. isl r \<or> r = Inr None)
       (case x of None \<Rightarrow> return_p None
        | Some sig \<Rightarrow> bind_p (validate_carry_opportunity C sig md) (\<lambda>valid.
        if \<not> valid then return_p None
        else bind_p (invoke ShouldTrade (should_trade C md)) (\<lambda>allowed.
          if \<not> allowed then return_p None
          else bind_p get_self (\<lambda>self.
            if confidence sig < min_confidence (risk_management (system_config self))
            then return_p None else return_p (Some sig)))))"
      by (cases x) (simp_all add: traced_return traced_after_validate)
  qed (simp_all add: return_p_def)
qed simp_all

lemma traced_generate: "traced (\<lambda>r. r = Inr None) (generate_signal C md)"
  unfolding generate_signal_def by (rule traced_try [OF traced_generate_body])

subsection \<open>What the analyzer computes\<close>

lemma collect_three:
  assumes "calculate_realized_volatility C ''5m'' (20, 60) = Inr (Some r5)" "r5 \<noteq> []"
    and "calculate_realized_volatility C ''15m'' (20, 60) = Inr (Some r15)" "r15 \<noteq> []"
    and "calculate_realized_volatility C ''1h'' (20, 60) = Inr (Some r1h)" "r1h \<noteq> []"
  shows "collect_vol_structure C [''5m'', ''15m'', ''1h''] [] s =
    (Inr [(''5m'', r5), (''15m'', r15), (''1h'', r1h)],
     s\<lparr>calls := calls s @ [(CalculateRealizedVolatility ''5m'', Returned),
        (CalculateRealizedVolatility ''15m'', Returned),
        (CalculateRealizedVolatility ''1h'', Returned)]\<rparr>)"
  using assms by (simp add: bind_p_def invoke_def return_p_def outcome_of_def)

lemma collect_cases:
  "(\<exists>r5 r15 r1h.
      calculate_realized_volatility C ''5m'' (20, 60) = Inr (Some r5) \<and> r5 \<noteq> [] \<and>
      calculate_realized_volatility C ''15m'' (20, 60) = Inr (Some r15) \<and> r15 \<noteq> [] \<and>
      calculate_realized_volatility C ''1h'' (20, 60) = Inr (Some r1h) \<and> r1h \<noteq> []) \<or>
   (\<exists>e. fst (collect_vol_structure C [''5m'', ''15m'', ''1h''] [] s) = Inl e) \<or>
   (\<exists>vs. fst (collect_vol_structure C [''5m'', ''15m'', ''1h''] [] s) = Inr vs \<and> length vs < 3)"
  by (auto simp: bind_p_def invoke_def return_p_def split: sum.splits option.splits)

lemma atr_proxy_fst:
  "fst (atr_proxy C md s) =
     (if length (price_15m md) \<ge> 20
      then calculate_atr_simple C (drop (length (price_15m md) - 20) (price_15m md))
      else Inr (current_price md * 0.01))"
  by (simp add: atr_proxy_def invoke_def return_p_def)

lemma analyze_unavailable:
  assumes "(\<exists>e. fst (collect_vol_structure C [''5m'', ''15m'', ''1h''] [] s) = Inl e) \<or>
   (\<exists>vs. fst (collect_vol_structure C [''5m'', ''15m'', ''1h''] [] s) = Inr vs \<and> length vs < 3)"
  shows "fst (analyze_term_structure C md s) = Inr None"
proof -
  obtain r s' where c: "collect_vol_structure C [''5m'', ''15m'', ''1h''] [] s = (r, s')"
    by (cases "collect_vol_structure C [''5m'', ''15m'', ''1h''] [] s")
  from assms c have "(\<exists>e. r = Inl e) \<or> (\<exists>vs. r = Inr vs \<and> length vs < 3)"
    by (simp del: collect_vol_structure.simps)
  then show ?thesis
    unfolding analyze_term_structure_def analyze_term_structure_body_def
    by (auto simp del: collect_vol_structure.simps
        simp add: c try_except_def bind_p_def return_p_def)
qed

lemma analyze_available:
  assumes "calculate_realized_volatility C ''5m'' (20, 60) = Inr (Some r5)" "r5 \<noteq> []"
    and "calculate_realized_volatility C ''15m'' (20, 60) = Inr (Some r15)" "r15 \<noteq> []"
    and "calculate_realized_volatility C ''1h'' (20, 60) = Inr (Some r1h)" "r1h \<noteq> []"
    and "overall_slope (dict_get r5 ''20_period'' 0) (dict_get r1h ''20_period'' 0) = Inr slope"
  shows "fst (analyze_term_structure C md s) =
    (if slope > contango_threshold (config s) then
       (if contango_threshold (config s) = 0 then Inr None
        else case fst (atr_proxy C md s) of
          Inl e \<Rightarrow> Inr None
        | Inr atr \<Rightarrow> Inr (Some
            \<lparr>action = 2,
             confidence = min (0.5 + min (slope / contango_threshold (config s)) 2.0 * 0.2) 0.9,
             entry_price = current_price md,
             stop_price = current_price md
               + atr * stop_loss_atr_multiplier (risk_management (system_config s)),
             target_price = current_price md - atr * target_atr_multiplier (config s),
             reason = (''Vol carry: Strong contango (slope='', slope)\<rparr>))
     else if slope < - backwardation_threshold (config s) then
       (if backwardation_threshold (config s) = 0 then Inr None
        else case fst (atr_proxy C md s) of
          Inl e \<Rightarrow> Inr None
        | Inr atr \<Rightarrow> Inr (Some
            \<lparr>action = 1,
             confidence = min (0.5 + min (\<bar>slope\<bar> / backwardation_threshold (config s)) 2.0 * 0.2) 0.9,
             entry_price = current_price md,
             stop_price = current_price md
               - atr * stop_loss_atr_multiplier (risk_management (system_config s)),
             target_price = current_price md + atr * target_atr_multiplier (config s),
             reason = (''Vol carry: Strong backwardation (slope='', slope)\<rparr>))
     else Inr None)"
proof -
  have sm: "\<exists>a. short_medium_slope (dict_get r5 ''20_period'' 0) (dict_get r15 ''20_period'' 0) = Inr a"
    by (simp add: short_medium_slope_def py_truediv_def)
  have ml: "\<exists>a. medium_long_slope (dict_get r15 ''20_period'' 0) (dict_get r1h ''20_period'' 0) = Inr a"
    by (simp add: medium_long_slope_def py_truediv_def)
  from sm ml obtain a b where
    a: "short_medium_slope (dict_get r5 ''20_period'' 0) (dict_get r15 ''20_period'' 0) = Inr a" and
    b: "medium_long_slope (dict_get r15 ''20_period'' 0) (dict_get r1h ''20_period'' 0) = Inr b"
    by blast
  note c = collect_three [OF assms(1-6), of s]
  show ?thesis
    unfolding analyze_term_structure_def analyze_term_structure_body_def
    using a b assms(7)
    by (simp del: collect_vol_structure.simps
        add: c bind_p_def try_except_def return_p_def lift_p_def
        get_self_def dict_item_def py_truediv_def atr_proxy_def invoke_def
        split: sum.splits)
qed

subsection \<open>The slopes are guarded against a non-positive denominator\<close>

text \<open>
  Claim C4. For every \<open>short_vol \<le> 0\<close> the overall slope is 0 and no division fault
  arises; the same holds for the two adjacent-pair slopes when their denominators
  (\<open>short_vol\<close> and \<open>medium_vol\<close>) are not strictly positive. None of the three slopes ever
  raises, and with a strictly positive denominator each is the quotient the source
  writes.
\<close>

theorem slopes_guarded:
  "(short_vol \<le> 0 \<longrightarrow>
      overall_slope short_vol long_vol = Inr 0 \<and>
      short_medium_slope short_vol medium_vol = Inr 0) \<and>
   (medium_vol \<le> 0 \<longrightarrow> medium_long_slope medium_vol long_vol = Inr 0) \<and>
   (\<exists>a b c. short_medium_slope short_vol medium_vol = Inr a \<and>
      medium_long_slope medium_vol long_vol = Inr b \<and>
      overall_slope short_vol long_vol = Inr c) \<and>
   (0 < short_vol \<longrightarrow>
      overall_slope short_vol long_vol = Inr ((long_vol - short_vol) / short_vol) \<and>
      short_medium_slope short_vol medium_vol = Inr ((medium_vol - short_vol) / short_vol)) \<and>
   (0 < medium_vol \<longrightarrow>
      medium_long_slope medium_vol long_vol = Inr ((long_vol - medium_vol) / medium_vol))"
  by (simp add: overall_slope_def short_medium_slope_def medium_long_slope_def py_truediv_def)

theorem slopes_guarded_witness:
  "(0::real) \<le> 0 \<and> (- 1::real) \<le> 0 \<and> (0::real) < 1 / 100 \<and>
   overall_slope 0 (2 / 100) = Inr 0 \<and>
   short_medium_slope 0 (15 / 1000) = Inr 0 \<and>
   medium_long_slope (- 1) (2 / 100) = Inr 0 \<and>
   overall_slope (1 / 100) (2 / 100) = Inr 1"
  using slopes_guarded [of 0 "2 / 100" "15 / 1000"] slopes_guarded [of 0 "2 / 100" "- 1"]
    slopes_guarded [of "1 / 100" "2 / 100" 0]
  by simp

subsection \<open>The decision of the analyzer\<close>




subsection \<open>Every signal of the analyzer is directional\<close>

lemma analyze_some:
  assumes "fst (analyze_term_structure C md s) = Inr (Some sig)"
  shows "\<exists>r5 r15 r1h slope atr.
    calculate_realized_volatility C ''5m'' (20, 60) = Inr (Some r5) \<and> r5 \<noteq> [] \<and>
    calculate_realized_volatility C ''15m'' (20, 60) = Inr (Some r15) \<and> r15 \<noteq> [] \<and>
    calculate_realized_volatility C ''1h'' (20, 60) = Inr (Some r1h) \<and> r1h \<noteq> [] \<and>
    overall_slope (dict_get r5 ''20_period'' 0) (dict_get r1h ''20_period'' 0) = Inr slope \<and>
    fst (atr_proxy C md s) = Inr atr \<and>
    (contango_threshold (config s) < slope \<and> contango_threshold (config s) \<noteq> 0 \<and>
       sig = \<lparr>action = 2,
             confidence = min (0.5 + min (slope / contango_threshold (config s)) 2.0 * 0.2) 0.9,
             entry_price = current_price md,
             stop_price = current_price md
               + atr * stop_loss_atr_multiplier (risk_management (system_config s)),
             target_price = current_price md - atr * target_atr_multiplier (config s),
             reason = (''Vol carry: Strong contango (slope='', slope)\<rparr>
     \<or>
     \<not> contango_threshold (config s) < slope \<and>
     slope < - backwardation_threshold (config s) \<and> backwardation_threshold (config s) \<noteq> 0 \<and>
       sig = \<lparr>action = 1,
             confidence = min (0.5 + min (\<bar>slope\<bar> / backwardation_threshold (config s)) 2.0 * 0.2) 0.9,
             entry_price = current_price md,
             stop_price = current_price md
               - atr * stop_loss_atr_multiplier (risk_management (system_config s)),
             target_price = current_price md + atr * target_atr_multiplier (config s),
             reason = (''Vol carry: Strong backwardation (slope='', slope)\<rparr>)"
proof -
  from collect_cases [of C s] analyze_unavailable [of C s md] assms
  obtain r5 r15 r1h where r:
    "calculate_realized_volatility C ''5m'' (20, 60) = Inr (Some r5)" "r5 \<noteq> []"
    "calculate_realized_volatility C ''15m'' (20, 60) = Inr (Some r15)" "r15 \<noteq> []"
    "calculate_realized_volatility C ''1h'' (20, 60) = Inr (Some r1h)" "r1h \<noteq> []"
    by fastforce
  have "\<exists>slope.
      overall_slope (dict_get r5 ''20_period'' 0) (dict_get r1h ''20_period'' 0) = Inr slope"
    by (simp add: overall_slope_def py_truediv_def)
  then obtain slope where sl:
    "overall_slope (dict_get r5 ''20_period'' 0) (dict_get r1h ''20_period'' 0) = Inr slope"
    by blast
  note res = analyze_available [OF r sl, of md s]
  from res assms obtain atr where atr: "fst (atr_proxy C md s) = Inr atr"
    by (cases "fst (atr_proxy C md s)") (auto split: if_splits)
  from res assms atr have
    "contango_threshold (config s) < slope \<and> contango_threshold (config s) \<noteq> 0 \<and>
       sig = \<lparr>action = 2,
             confidence = min (0.5 + min (slope / contango_threshold (config s)) 2.0 * 0.2) 0.9,
             entry_price = current_price md,
             stop_price = current_price md
               + atr * stop_loss_atr_multiplier (risk_management (system_config s)),
             target_price = current_price md - atr * target_atr_multiplier (config s),
             reason = (''Vol carry: Strong contango (slope='', slope)\<rparr>
     \<or>
     \<not> contango_threshold (config s) < slope \<and>
     slope < - backwardation_threshold (config s) \<and> backwardation_threshold (config s) \<noteq> 0 \<and>
       sig = \<lparr>action = 1,
             confidence = min (0.5 + min (\<bar>slope\<bar> / backwardation_threshold (config s)) 2.0 * 0.2) 0.9,
             entry_price = current_price md,
             stop_price = current_price md
               - atr * stop_loss_atr_multiplier (risk_management (system_config s)),
             target_price = current_price md + atr * target_atr_multiplier (config s),
             reason = (''Vol carry: Strong backwardation (slope='', slope)\<rparr>"
    by (auto split: if_splits)
  with r sl atr show ?thesis by blast
qed

lemma analyze_returns: "\<exists>r. fst (analyze_term_structure C md s) = Inr r"
  unfolding analyze_term_structure_def by (rule try_except_returns)

lemma confidence_upper: "min (0.5 + min (q::real) 2.0 * 0.2) 0.9 \<le> 0.9"
  by simp

lemma confidence_lower: "0 \<le> (q::real) \<Longrightarrow> 0.5 \<le> min (0.5 + min q 2.0 * 0.2) 0.9"
  by (simp add: min_def)

lemma analyze_demo:
  "fst (analyze_term_structure calm demo_market demo_strategy) = Inr (Some demo_sell)"
proof -
  have h1: "calculate_realized_volatility calm ''5m'' (20, 60) =
     Inr (Some [(''20_period'', 1 / 100), (''60_period'', 1 / 100)])"
    and h2: "calculate_realized_volatility calm ''15m'' (20, 60) = Inr (Some [(''20_period'', 15 / 1000)])"
    and h3: "calculate_realized_volatility calm ''1h'' (20, 60) = Inr (Some [(''20_period'', 2 / 100)])"
    by (simp_all add: calm_def)
  have h4: "overall_slope (dict_get [(''20_period'', 1 / 100), (''60_period'', 1 / 100)] ''20_period'' 0)
     (dict_get [(''20_period'', 2 / 100)] ''20_period'' 0) = Inr 1"
    by (simp add: overall_slope_def dict_get_def py_truediv_def)
  show ?thesis
    using analyze_available [OF h1 _ h2 _ h3 _ h4, of demo_market demo_strategy]
    by (simp add: atr_proxy_fst demo_market_def demo_strategy_def init_def demo_config_def
        demo_system_config_def demo_sell_def)
qed

text \<open>
  Claim C2, amended. The analyzer never raises. A signal that it produces is never a
  HOLD: it is a SELL with the overall slope above the contango threshold, or a BUY with
  the slope below minus the backwardation threshold, so that in both cases the magnitude
  of the slope exceeds the threshold. Its confidence is at most 0.9, and at least 0.5 when
  the threshold of its direction is positive. When neither comparison holds there is no
  signal object at all.
\<close>

theorem directional_signal_invariant:
  "(\<exists>r. fst (analyze_term_structure C md s) = Inr r) \<and>
   (fst (analyze_term_structure C md s) = Inr (Some sig) \<longrightarrow>
     (\<exists>r5 r1h slope.
        calculate_realized_volatility C ''5m'' (20, 60) = Inr (Some r5) \<and>
        calculate_realized_volatility C ''1h'' (20, 60) = Inr (Some r1h) \<and>
        overall_slope (dict_get r5 ''20_period'' 0) (dict_get r1h ''20_period'' 0) = Inr slope \<and>
        (action sig = 2 \<and> contango_threshold (config s) < slope \<and>
           contango_threshold (config s) < \<bar>slope\<bar> \<and>
           (0 < contango_threshold (config s) \<longrightarrow> 0.5 \<le> confidence sig)
         \<or>
         action sig = 1 \<and> slope < - backwardation_threshold (config s) \<and>
           backwardation_threshold (config s) < \<bar>slope\<bar> \<and>
           (0 < backwardation_threshold (config s) \<longrightarrow> 0.5 \<le> confidence sig))) \<and>
     action sig \<noteq> 0 \<and> confidence sig \<le> 0.9)"
proof (intro conjI impI)
  show "\<exists>r. fst (analyze_term_structure C md s) = Inr r" by (rule analyze_returns)
next
  assume a: "fst (analyze_term_structure C md s) = Inr (Some sig)"
  from analyze_some [OF a] obtain r5 r15 r1h slope atr where
    r: "calculate_realized_volatility C ''5m'' (20, 60) = Inr (Some r5)"
       "calculate_realized_volatility C ''1h'' (20, 60) = Inr (Some r1h)"
       "overall_slope (dict_get r5 ''20_period'' 0) (dict_get r1h ''20_period'' 0) = Inr slope"
    and d: "contango_threshold (config s) < slope \<and> contango_threshold (config s) \<noteq> 0 \<and>
       sig = \<lparr>action = 2,
             confidence = min (0.5 + min (slope / contango_threshold (config s)) 2.0 * 0.2) 0.9,
             entry_price = current_price md,
             stop_price = current_price md
               + atr * stop_loss_atr_multiplier (risk_management (system_config s)),
             target_price = current_price md - atr * target_atr_multiplier (config s),
             reason = (''Vol carry: Strong contango (slope='', slope)\<rparr>
     \<or>
     \<not> contango_threshold (config s) < slope \<and>
     slope < - backwardation_threshold (config s) \<and> backwardation_threshold (config s) \<noteq> 0 \<and>
       sig = \<lparr>action = 1,
             confidence = min (0.5 + min (\<bar>slope\<bar> / backwardation_threshold (config s)) 2.0 * 0.2) 0.9,
             entry_price = current_price md,
             stop_price = current_price md
               - atr * stop_loss_atr_multiplier (risk_management (system_config s)),
             target_price = current_price md + atr * target_atr_multiplier (config s),
             reason = (''Vol carry: Strong backwardation (slope='', slope)\<rparr>"
    by blast
  from d show "action sig \<noteq> 0" by auto
  from d show "confidence sig \<le> 0.9" using confidence_upper by auto
  from d have
    "action sig = 2 \<and> contango_threshold (config s) < slope \<and>
       contango_threshold (config s) < \<bar>slope\<bar> \<and>
       (0 < contango_threshold (config s) \<longrightarrow> 0.5 \<le> confidence sig)
     \<or>
     action sig = 1 \<and> slope < - backwardation_threshold (config s) \<and>
       backwardation_threshold (config s) < \<bar>slope\<bar> \<and>
       (0 < backwardation_threshold (config s) \<longrightarrow> 0.5 \<le> confidence sig)"
  proof
    assume s: "contango_threshold (config s) < slope \<and> contango_threshold (config s) \<noteq> 0 \<and>
       sig = \<lparr>action = 2,
             confidence = min (0.5 + min (slope / contango_threshold (config s)) 2.0 * 0.2) 0.9,
             entry_price = current_price md,
             stop_price = current_price md
               + atr * stop_loss_atr_multiplier (risk_management (system_config s)),
             target_price = current_price md - atr * target_atr_multiplier (config s),
             reason = (''Vol carry: Strong contango (slope='', slope)\<rparr>"
    have "0 < contango_threshold (config s) \<Longrightarrow> 0.5 \<le> confidence sig"
    proof -
      assume p: "0 < contango_threshold (config s)"
      with s have "0 \<le> slope / contango_threshold (config s)" by simp
      from confidence_lower [OF this] s show ?thesis by simp
    qed
    with s show ?thesis by auto
  next
    assume b: "\<not> contango_threshold (config s) < slope \<and>
     slope < - backwardation_threshold (config s) \<and> backwardation_threshold (config s) \<noteq> 0 \<and>
       sig = \<lparr>action = 1,
             confidence = min (0.5 + min (\<bar>slope\<bar> / backwardation_threshold (config s)) 2.0 * 0.2) 0.9,
             entry_price = current_price md,
             stop_price = current_price md
               - atr * stop_loss_atr_multiplier (risk_management (system_config s)),
             target_price = current_price md + atr * target_atr_multiplier (config s),
             reason = (''Vol carry: Strong backwardation (slope='', slope)\<rparr>"
    have "0 < backwardation_threshold (config s) \<Longrightarrow> 0.5 \<le> confidence sig"
    proof -
      assume p: "0 < backwardation_threshold (config s)"
      then have "0 \<le> \<bar>slope\<bar> / backwardation_threshold (config s)" by simp
      from confidence_lower [OF this] b show ?thesis by simp
    qed
    with b show ?thesis by auto
  qed
  with r show "\<exists>r5 r1h slope.
        calculate_realized_volatility C ''5m'' (20, 60) = Inr (Some r5) \<and>
        calculate_realized_volatility C ''1h'' (20, 60) = Inr (Some r1h) \<and>
        overall_slope (dict_get r5 ''20_period'' 0) (dict_get r1h ''20_period'' 0) = Inr slope \<and>
        (action sig = 2 \<and> contango_threshold (config s) < slope \<and>
           contango_threshold (config s) < \<bar>slope\<bar> \<and>
           (0 < contango_threshold (config s) \<longrightarrow> 0.5 \<le> confidence sig)
         \<or>
         action sig = 1 \<and> slope < - backwardation_threshold (config s) \<and>
           backwardation_threshold (config s) < \<bar>slope\<bar> \<and>
           (0 < backwardation_threshold (config s) \<longrightarrow> 0.5 \<le> confidence sig))"
    by blast
qed

text \<open>The SELL candidate of the calm collaborators, threshold 0.5, confidence 0.9.\<close>

theorem directional_signal_invariant_witness:
  "fst (analyze_term_structure calm demo_market demo_strategy) = Inr (Some demo_sell) \<and>
   0 < contango_threshold (config demo_strategy) \<and>
   action demo_sell = 2 \<and> 5 / 10 \<le> confidence demo_sell \<and> confidence demo_sell \<le> 9 / 10"
proof -
  have c: "contango_threshold (config demo_strategy) = 1 / 2"
    by (simp add: demo_strategy_def init_def demo_config_def)
  have a: "action demo_sell = 2" by (simp add: demo_sell_def)
  from directional_signal_invariant [of calm demo_market demo_strategy demo_sell] analyze_demo
  have "5 / 10 \<le> confidence demo_sell \<and> confidence demo_sell \<le> 9 / 10"
    by (auto simp: c a)
  with analyze_demo c a show ?thesis by simp
qed

text \<open>
  With a contango threshold of -0.5 and slope 1 the ratio is -2, and the SELL candidate
  has confidence 0.5 - 0.4 = 0.1, below 0.5.
\<close>

theorem negative_threshold_counterexample:
  "fst (analyze_term_structure calm demo_market negative_threshold_strategy) =
     Inr (Some (demo_sell\<lparr>confidence := 1 / 10\<rparr>)) \<and>
   action (demo_sell\<lparr>confidence := 1 / 10\<rparr>) = 2 \<and>
   \<not> 5 / 10 \<le> confidence (demo_sell\<lparr>confidence := 1 / 10\<rparr>)"
proof -
  have h1: "calculate_realized_volatility calm ''5m'' (20, 60) =
     Inr (Some [(''20_period'', 1 / 100), (''60_period'', 1 / 100)])"
    and h2: "calculate_realized_volatility calm ''15m'' (20, 60) = Inr (Some [(''20_period'', 15 / 1000)])"
    and h3: "calculate_realized_volatility calm ''1h'' (20, 60) = Inr (Some [(''20_period'', 2 / 100)])"
    by (simp_all add: calm_def)
  have h4: "overall_slope (dict_get [(''20_period'', 1 / 100), (''60_period'', 1 / 100)] ''20_period'' 0)
     (dict_get [(''20_period'', 2 / 100)] ''20_period'' 0) = Inr 1"
    by (simp add: overall_slope_def dict_get_def py_truediv_def)
  show ?thesis
    using analyze_available [OF h1 _ h2 _ h3 _ h4, of demo_market negative_threshold_strategy]
    by (simp add: atr_proxy_fst demo_market_def negative_threshold_strategy_def init_def
        demo_config_def demo_system_config_def demo_sell_def)
qed

subsection \<open>Stop and target\<close>



subsection \<open>The filters of the validator\<close>

lemma validate_result:
  "validate_carry_opportunity C sig md s =
     (case calculate_volatility_regime C ''15m'' of
        Inl e \<Rightarrow> (Inr False, s\<lparr>calls := calls s @ [(CalculateVolatilityRegime ''15m'', Raised)]\<rparr>)
      | Inr regime \<Rightarrow>
          if regime = ''low'' \<and> action sig = 2 \<or> regime = ''high'' \<and> action sig = 1
          then (Inr False, s\<lparr>calls := calls s @ [(CalculateVolatilityRegime ''15m'', Returned)]\<rparr>)
          else
            (case calculate_volatility_breakout C ''15m'' of
               Inl e \<Rightarrow>
                 (Inr False,
                  s\<lparr>calls := calls s @ [(CalculateVolatilityRegime ''15m'', Returned),
                     (CalculateVolatilityBreakout ''15m'', Raised)]\<rparr>)
             | Inr info \<Rightarrow>
                 (Inr (\<not> breakout_rejects info \<and>
                       \<not> confidence sig < min_carry_confidence (config s)),
                  s\<lparr>calls := calls s @ [(CalculateVolatilityRegime ''15m'', Returned),
                     (CalculateVolatilityBreakout ''15m'', Returned)]\<rparr>)))"
  by (simp add: validate_carry_opportunity_def validate_carry_opportunity_body_def
      try_except_def bind_p_def invoke_def return_p_def get_self_def outcome_of_def
      split: sum.splits)

text \<open>
  Claim C6. The validator rejects every SELL candidate when the 15-minute regime is
  \<open>low\<close> and every BUY candidate when it is \<open>high\<close>, whatever the confidence, and does so
  right after the regime call. For every other pair of regime and action it goes on to
  the breakout call, and its answer is that of the breakout and confidence filters alone.
\<close>

theorem regime_filter:
  "(calculate_volatility_regime C ''15m'' = Inr ''low'' \<and> action sig = 2 \<longrightarrow>
      validate_carry_opportunity C sig md s =
        (Inr False, s\<lparr>calls := calls s @ [(CalculateVolatilityRegime ''15m'', Returned)]\<rparr>)) \<and>
   (calculate_volatility_regime C ''15m'' = Inr ''high'' \<and> action sig = 1 \<longrightarrow>
      validate_carry_opportunity C sig md s =
        (Inr False, s\<lparr>calls := calls s @ [(CalculateVolatilityRegime ''15m'', Returned)]\<rparr>)) \<and>
   (calculate_volatility_regime C ''15m'' = Inr regime \<and>
    \<not> (regime = ''low'' \<and> action sig = 2) \<and> \<not> (regime = ''high'' \<and> action sig = 1) \<and>
    calculate_volatility_breakout C ''15m'' = Inr info \<longrightarrow>
      validate_carry_opportunity C sig md s =
        (Inr (\<not> breakout_rejects info \<and> \<not> confidence sig < min_carry_confidence (config s)),
         s\<lparr>calls := calls s @ [(CalculateVolatilityRegime ''15m'', Returned),
            (CalculateVolatilityBreakout ''15m'', Returned)]\<rparr>))"
  by (simp add: validate_result)

text \<open>
  A SELL of confidence 0.9 is rejected in a low regime, and the same candidate is
  accepted in a medium regime with no breakout.
\<close>

theorem regime_filter_witness:
  "calculate_volatility_regime low_regime ''15m'' = Inr ''low'' \<and> action demo_sell = 2 \<and>
   fst (validate_carry_opportunity low_regime demo_sell demo_market demo_strategy) = Inr False \<and>
   calculate_volatility_regime calm ''15m'' = Inr ''medium'' \<and>
   calculate_volatility_breakout calm ''15m'' = Inr None \<and>
   fst (validate_carry_opportunity calm demo_sell demo_market demo_strategy) = Inr True"
proof -
  have r: "calculate_volatility_regime low_regime ''15m'' = Inr ''low''"
    by (simp add: low_regime_def)
  have a: "action demo_sell = 2" by (simp add: demo_sell_def)
  have m: "calculate_volatility_regime calm ''15m'' = Inr ''medium''"
    and b: "calculate_volatility_breakout calm ''15m'' = Inr None"
    by (simp_all add: calm_def)
  have c: "\<not> breakout_rejects None \<and>
      \<not> confidence demo_sell < min_carry_confidence (config demo_strategy)"
    by (simp add: breakout_rejects_def demo_sell_def demo_strategy_def init_def demo_config_def)
  from regime_filter [of low_regime demo_sell demo_market demo_strategy] r a
  have 1: "fst (validate_carry_opportunity low_regime demo_sell demo_market demo_strategy) = Inr False"
    by simp
  from regime_filter [of calm demo_sell demo_market demo_strategy "''medium''" None] m b a c
  have 2: "fst (validate_carry_opportunity calm demo_sell demo_market demo_strategy) = Inr True"
    by simp
  from r a m b 1 2 show ?thesis by simp
qed

text \<open>
  Claim C7. When the breakout detection answers a flagged breakout of strength above
  2.5, the validator rejects every candidate. A flagged breakout of strength at most 2.5
  (2.0, say) does not reject: once the regime filter has let the candidate pass, the
  answer is that of the confidence floor alone.
\<close>

theorem breakout_override:
  "(calculate_volatility_breakout C ''15m'' =
      Inr (Some \<lparr>is_breakout = Some True, breakout_strength = Some x\<rparr>) \<and> 2.5 < x \<longrightarrow>
      fst (validate_carry_opportunity C sig md s) = Inr False) \<and>
   (calculate_volatility_breakout C ''15m'' =
      Inr (Some \<lparr>is_breakout = Some True, breakout_strength = Some x\<rparr>) \<and> x \<le> 2.5 \<and>
    calculate_volatility_regime C ''15m'' = Inr regime \<and>
    \<not> (regime = ''low'' \<and> action sig = 2) \<and> \<not> (regime = ''high'' \<and> action sig = 1) \<longrightarrow>
      fst (validate_carry_opportunity C sig md s) =
        Inr (\<not> confidence sig < min_carry_confidence (config s)))"
  by (cases "calculate_volatility_regime C ''15m''")
    (simp_all add: validate_result breakout_rejects_def)

text \<open>
  Strength 3 rejects a SELL of confidence 0.9 in a medium regime; strength 2 lets the
  same candidate through.
\<close>

theorem breakout_override_witness:
  "calculate_volatility_breakout strong_breakout ''15m'' =
     Inr (Some \<lparr>is_breakout = Some True, breakout_strength = Some 3\<rparr>) \<and> (25 / 10 :: real) < 3 \<and>
   fst (validate_carry_opportunity strong_breakout demo_sell demo_market demo_strategy) = Inr False \<and>
   calculate_volatility_breakout mild_breakout ''15m'' =
     Inr (Some \<lparr>is_breakout = Some True, breakout_strength = Some 2\<rparr>) \<and> (2 :: real) \<le> 25 / 10 \<and>
   calculate_volatility_regime mild_breakout ''15m'' = Inr ''medium'' \<and>
   fst (validate_carry_opportunity mild_breakout demo_sell demo_market demo_strategy) = Inr True"
proof -
  have s: "calculate_volatility_breakout strong_breakout ''15m'' =
     Inr (Some \<lparr>is_breakout = Some True, breakout_strength = Some 3\<rparr>)"
    by (simp add: strong_breakout_def)
  have m: "calculate_volatility_breakout mild_breakout ''15m'' =
     Inr (Some \<lparr>is_breakout = Some True, breakout_strength = Some 2\<rparr>)"
    and r: "calculate_volatility_regime mild_breakout ''15m'' = Inr ''medium''"
    by (simp_all add: mild_breakout_def calm_def)
  have c: "\<not> confidence demo_sell < min_carry_confidence (config demo_strategy)"
    by (simp add: demo_sell_def demo_strategy_def init_def demo_config_def)
  from breakout_override [of strong_breakout 3 demo_sell demo_market demo_strategy] s
  have 1: "fst (validate_carry_opportunity strong_breakout demo_sell demo_market demo_strategy) = Inr False"
    by simp
  from breakout_override [of mild_breakout 2 demo_sell demo_market demo_strategy "''medium''"] m r c
  have 2: "fst (validate_carry_opportunity mild_breakout demo_sell demo_market demo_strategy) = Inr True"
    by simp
  from s m r 1 2 show ?thesis by simp
qed

subsection \<open>The data-sufficiency gate and the orchestrator\<close>

lemma check_required_data:
  "check_required status required_data =
     (\<forall>timeframe \<in> {''5m'', ''15m'', ''1h''}.
        100 \<le> (case map_of status timeframe of
                  None \<Rightarrow> 0
                | Some entry \<Rightarrow> (case map_of entry ''data_points'' of None \<Rightarrow> 0 | Some n \<Rightarrow> n)))"
  by (auto simp: required_data_def dict_get_def split: option.splits)

lemma has_sufficient_data_result:
  "get_status C = Inr status \<Longrightarrow>
   has_sufficient_data C s =
     (Inr (check_required status required_data), s\<lparr>calls := calls s @ [(GetStatus, Returned)]\<rparr>)"
  by (simp add: has_sufficient_data_def bind_p_def invoke_def return_p_def outcome_of_def)

lemma generate_signal_insufficient:
  assumes "get_status C = Inr status" and "\<not> check_required status required_data"
  shows "generate_signal C md s =
     (Inr None,
      s\<lparr>calls := calls s @
         (case update_price_history C md of
            Inl e \<Rightarrow> [(UpdatePriceHistory, Raised)]
          | Inr u \<Rightarrow> [(UpdatePriceHistory, Returned), (GetStatus, Returned)])\<rparr>)"
proof (cases "update_price_history C md")
  case (Inl e)
  then show ?thesis
    by (simp add: generate_signal_def generate_signal_body_def try_except_def bind_p_def
        invoke_def return_p_def outcome_of_def)
next
  case (Inr u)
  have 1: "invoke UpdatePriceHistory (Inr ()) s =
      (Inr (), s\<lparr>calls := calls s @ [(UpdatePriceHistory, Returned)]\<rparr>)"
    by (simp add: invoke_def outcome_of_def)
  have 2: "has_sufficient_data C (s\<lparr>calls := calls s @ [(UpdatePriceHistory, Returned)]\<rparr>) =
      (Inr False, s\<lparr>calls := calls s @ [(UpdatePriceHistory, Returned), (GetStatus, Returned)]\<rparr>)"
    using has_sufficient_data_result [OF assms(1)] assms(2) by simp
  show ?thesis
    unfolding generate_signal_def generate_signal_body_def try_except_def
    by (simp add: bind_p_def 1 2 return_p_def Inr)
qed

text \<open>
  Claim C5. The gate answers true exactly when each of the timeframes 5m, 15m and 1h has
  at least 100 data points in the status mapping, a missing timeframe or a missing
  \<open>data_points\<close> entry counting as 0; it makes the one call \<open>get_status\<close> and changes no
  attribute. When some required timeframe has fewer than 100 points, \<open>generate_signal\<close>
  returns none, and the calls it made are the price-history update and \<open>get_status\<close>
  only: the analyzer was not run.
\<close>

theorem data_sufficiency_gate:
  "(get_status C = Inr status \<longrightarrow>
      has_sufficient_data C s =
        (Inr (\<forall>timeframe \<in> {''5m'', ''15m'', ''1h''}.
                100 \<le> (case map_of status timeframe of
                          None \<Rightarrow> 0
                        | Some entry \<Rightarrow>
                            (case map_of entry ''data_points'' of None \<Rightarrow> 0 | Some n \<Rightarrow> n))),
         s\<lparr>calls := calls s @ [(GetStatus, Returned)]\<rparr>)) \<and>
   (get_status C = Inr status \<and>
    (\<exists>timeframe \<in> {''5m'', ''15m'', ''1h''}.
        (case map_of status timeframe of
           None \<Rightarrow> 0
         | Some entry \<Rightarrow> (case map_of entry ''data_points'' of None \<Rightarrow> 0 | Some n \<Rightarrow> n)) < 100) \<longrightarrow>
      generate_signal C md s =
        (Inr None,
         s\<lparr>calls := calls s @
            (case update_price_history C md of
               Inl e \<Rightarrow> [(UpdatePriceHistory, Raised)]
             | Inr u \<Rightarrow> [(UpdatePriceHistory, Returned), (GetStatus, Returned)])\<rparr>))"
proof (intro conjI impI)
  assume "get_status C = Inr status"
  then show "has_sufficient_data C s =
        (Inr (\<forall>timeframe \<in> {''5m'', ''15m'', ''1h''}.
                100 \<le> (case map_of status timeframe of
                          None \<Rightarrow> 0
                        | Some entry \<Rightarrow>
                            (case map_of entry ''data_points'' of None \<Rightarrow> 0 | Some n \<Rightarrow> n))),
         s\<lparr>calls := calls s @ [(GetStatus, Returned)]\<rparr>)"
    by (simp only: has_sufficient_data_result check_required_data)
next
  assume a: "get_status C = Inr status \<and>
    (\<exists>timeframe \<in> {''5m'', ''15m'', ''1h''}.
        (case map_of status timeframe of
           None \<Rightarrow> 0
         | Some entry \<Rightarrow> (case map_of entry ''data_points'' of None \<Rightarrow> 0 | Some n \<Rightarrow> n)) < 100)"
  then have n: "\<not> check_required status required_data"
    unfolding check_required_data by (meson not_le)
  from a have g: "get_status C = Inr status" by simp
  show "generate_signal C md s =
        (Inr None,
         s\<lparr>calls := calls s @
            (case update_price_history C md of
               Inl e \<Rightarrow> [(UpdatePriceHistory, Raised)]
             | Inr u \<Rightarrow> [(UpdatePriceHistory, Returned), (GetStatus, Returned)])\<rparr>)"
    by (rule generate_signal_insufficient [OF g n])
qed

text \<open>
  A status with 99 points for 15m and no entry for 1h: the gate answers false and the
  orchestrator stops after two calls.
\<close>

theorem data_sufficiency_gate_witness:
  "get_status short_history =
     Inr [(''5m'', [(''data_points'', 100)]), (''15m'', [(''data_points'', 99)])] \<and>
   fst (has_sufficient_data short_history demo_strategy) = Inr False \<and>
   generate_signal short_history demo_market demo_strategy =
     (Inr None, demo_strategy\<lparr>calls := [(UpdatePriceHistory, Returned), (GetStatus, Returned)]\<rparr>)"
proof -
  have g: "get_status short_history =
     Inr [(''5m'', [(''data_points'', 100)]), (''15m'', [(''data_points'', 99)])]"
    by (simp add: short_history_def)
  have u: "update_price_history short_history demo_market = Inr ()"
    by (simp add: short_history_def calm_def)
  have c: "calls demo_strategy = []"
    by (simp add: demo_strategy_def init_def)
  note t = data_sufficiency_gate [of short_history
      "[(''5m'', [(''data_points'', 100)]), (''15m'', [(''data_points'', 99)])]"
      demo_strategy demo_market]
  from t g have 1: "fst (has_sufficient_data short_history demo_strategy) = Inr False"
    by simp
  from t g u c have 2: "generate_signal short_history demo_market demo_strategy =
     (Inr None, demo_strategy\<lparr>calls := [(UpdatePriceHistory, Returned), (GetStatus, Returned)]\<rparr>)"
    by simp
  from g 1 2 show ?thesis by simp
qed

subsection \<open>Exceptions stop at the entry point\<close>

lemmas run_defs =
  generate_signal_def generate_signal_body_def has_sufficient_data_def
  analyze_term_structure_def analyze_term_structure_body_def atr_proxy_def
  validate_carry_opportunity_def validate_carry_opportunity_body_def breakout_rejects_def
  try_except_def bind_p_def invoke_def return_p_def lift_p_def get_self_def outcome_of_def
  required_data_def dict_get_def dict_item_def py_truediv_def
  short_medium_slope_def medium_long_slope_def overall_slope_def
  demo_strategy_def init_def demo_config_def demo_system_config_def demo_market_def
  demo_sell_def full_status_def


lemma generate_closed_risk_gate:
  "generate_signal closed_risk_gate demo_market demo_strategy =
     (Inr None,
      demo_strategy\<lparr>calls :=
        [(UpdatePriceHistory, Returned), (GetStatus, Returned),
         (CalculateRealizedVolatility ''5m'', Returned),
         (CalculateRealizedVolatility ''15m'', Returned),
         (CalculateRealizedVolatility ''1h'', Returned),
         (CalculateVolatilityRegime ''15m'', Returned),
         (CalculateVolatilityBreakout ''15m'', Returned),
         (ShouldTrade, Raised)]\<rparr>)"
  by (simp add: run_defs closed_risk_gate_def calm_def)


text \<open>
  Claim C9. \<open>generate_signal\<close> never raises, whatever the collaborators answer, and
  whenever one of the calls it made to a collaborator (price-history update, status,
  volatility readings, ATR, regime, breakout, risk gate) raised, it returns none. The
  validator never raises either and answers false when a call of its own raised; the
  analyzer never raises and produces no candidate when a call of its own raised.
\<close>

theorem exceptions_never_propagate:
  "(\<exists>r tr. generate_signal C md s = (Inr r, s\<lparr>calls := calls s @ tr\<rparr>) \<and>
      (Raised \<in> snd ` set tr \<longrightarrow> r = None)) \<and>
   (\<exists>b tr. validate_carry_opportunity C sig md s = (Inr b, s\<lparr>calls := calls s @ tr\<rparr>) \<and>
      (Raised \<in> snd ` set tr \<longrightarrow> b = False)) \<and>
   (\<exists>r tr. analyze_term_structure C md s = (Inr r, s\<lparr>calls := calls s @ tr\<rparr>) \<and>
      (Raised \<in> snd ` set tr \<longrightarrow> r = None))"
proof (intro conjI)
  from traced_generate [of C md] obtain r tr where
    1: "generate_signal C md s = (r, s\<lparr>calls := calls s @ tr\<rparr>)"
    and 2: "Raised \<in> snd ` set tr \<longrightarrow> r = Inr None"
    unfolding traced_def by blast
  from try_except_returns [of "generate_signal_body C md" None s] 1
  obtain x where "r = Inr x" by (auto simp: generate_signal_def)
  with 1 2 show "\<exists>r tr. generate_signal C md s = (Inr r, s\<lparr>calls := calls s @ tr\<rparr>) \<and>
      (Raised \<in> snd ` set tr \<longrightarrow> r = None)"
    by auto
next
  from traced_validate [of C sig md] obtain r tr where
    1: "validate_carry_opportunity C sig md s = (r, s\<lparr>calls := calls s @ tr\<rparr>)"
    and 2: "Raised \<in> snd ` set tr \<longrightarrow> r = Inr False"
    unfolding traced_def by blast
  from try_except_returns [of "validate_carry_opportunity_body C sig md" False s] 1
  obtain x where "r = Inr x" by (auto simp: validate_carry_opportunity_def)
  with 1 2 show "\<exists>b tr. validate_carry_opportunity C sig md s =
      (Inr b, s\<lparr>calls := calls s @ tr\<rparr>) \<and> (Raised \<in> snd ` set tr \<longrightarrow> b = False)"
    by auto
next
  from traced_analyze [of C md] obtain r tr where
    1: "analyze_term_structure C md s = (r, s\<lparr>calls := calls s @ tr\<rparr>)"
    and 2: "Raised \<in> snd ` set tr \<longrightarrow> r = Inr None"
    unfolding traced_def by blast
  from try_except_returns [of "analyze_term_structure_body C md" None s] 1
  obtain x where "r = Inr x" by (auto simp: analyze_term_structure_def)
  with 1 2 show "\<exists>r tr. analyze_term_structure C md s = (Inr r, s\<lparr>calls := calls s @ tr\<rparr>) \<and>
      (Raised \<in> snd ` set tr \<longrightarrow> r = None)"
    by auto
qed

text \<open>
  Every gate is passed until the risk gate raises, at the eighth call: the result is
  none.
\<close>

theorem exceptions_never_propagate_witness:
  "Raised \<in> snd ` set (calls (snd (generate_signal closed_risk_gate demo_market demo_strategy))) \<and>
   calls demo_strategy = [] \<and>
   fst (generate_signal closed_risk_gate demo_market demo_strategy) = Inr None"
proof -
  have c: "calls demo_strategy = []"
    by (simp add: demo_strategy_def init_def)
  have t: "Raised \<in> snd ` set (calls (snd (generate_signal closed_risk_gate demo_market demo_strategy)))"
    by (simp add: generate_closed_risk_gate)
  from exceptions_never_propagate [of closed_risk_gate demo_market demo_strategy]
  obtain r tr where
    1: "generate_signal closed_risk_gate demo_market demo_strategy =
          (Inr r, demo_strategy\<lparr>calls := calls demo_strategy @ tr\<rparr>)"
    and 2: "Raised \<in> snd ` set tr \<longrightarrow> r = None"
    by blast
  from t 1 c have "Raised \<in> snd ` set tr" by simp
  with 2 have "r = None" by simp
  with 1 t c show ?thesis by simp
qed

subsection \<open>The tracking attributes\<close>












end
